theory Spec2Isabelle
  imports Main
begin

section \<open>The PagSeguro payment gateway module\<close>

text \<open>
  A shallow embedding of \<^verbatim>\<open>saleor/payment/gateways/pagseguro/__init__.py\<close>.

  The module refers to names it does not define: \<^verbatim>\<open>pagseguro_sdk\<close> (the processor's
  client library), \<^verbatim>\<open>DEFAULT_ERROR_MESSAGE\<close> and \<^verbatim>\<open>PagSeguroException\<close> (module
  \<^verbatim>\<open>.errors\<close>), \<^verbatim>\<open>ChargeStatus\<close> and \<^verbatim>\<open>TransactionKind\<close> (package
  \<^verbatim>\<open>saleor.payment\<close>), the dataclasses of \<^verbatim>\<open>saleor.payment.interface\<close>, and
  \<^verbatim>\<open>pgettext_lazy\<close>. The data classes are modelled with the fields the module reads and
  writes; the constants and the behaviour of the processor are parameters of the model,
  gathered in the record \<open>externals\<close>.
\<close>

subsection \<open>Data\<close>

text \<open>Python's \<^verbatim>\<open>Decimal\<close>, a coefficient and an exponent; the module only copies amounts
  and renders them with \<^verbatim>\<open>str\<close>.\<close>

datatype decimal = Decimal int int

datatype TransactionKind = AUTH | CAPTURE | VOID | REFUND

record AddressData =
  first_name :: string
  last_name :: string
  company_name :: string
  street_address_1 :: string
  street_address_2 :: string
  city :: string
  country_area :: string
  postal_code :: string
  country :: string

record PaymentData =
  amount :: decimal
  currency :: string
  billing :: "AddressData option"
  order_id :: "int option"
  customer_ip_address :: "string option"
  customer_email :: string
  token :: string
  customer_id :: "string option"
  reuse_source :: bool

text \<open>The keyword arguments of \<^verbatim>\<open>get_pagseguro_gateway\<close>, as held in
  \<^verbatim>\<open>config.connection_params\<close>. A credential may be \<^verbatim>\<open>None\<close>.\<close>

record connection_params =
  sandbox_mode :: bool
  merchant_id :: "string option"
  public_key :: "string option"
  private_key :: "string option"

record GatewayConfig =
  auto_capture :: bool
  store_customer :: bool
  require_3d_secure :: bool
  connection_params :: connection_params

text \<open>One entry of the error list that \<^verbatim>\<open>extract_gateway_response\<close> builds: the dict
  \<^verbatim>\<open>{"code": ..., "message": ...}\<close>.\<close>

record error_entry =
  code :: string
  message :: string

text \<open>The values stored in the dict of \<^verbatim>\<open>extract_gateway_response\<close>. \<open>OptStr\<close> is a
  string that may be \<^verbatim>\<open>None\<close> (the customer id of the processor's transaction).\<close>

datatype py_value =
    Str (the_Str: string)
  | OptStr (the_OptStr: "string option")
  | Dec (the_Dec: decimal)
  | Card "(string \<times> string) list"
  | Errors (the_Errors: "error_entry list")

type_synonym py_dict = "string \<rightharpoonup> py_value"

record GatewayResponse =
  is_success :: bool
  action_required :: bool
  kind :: TransactionKind
  gr_amount :: decimal
  gr_currency :: string
  transaction_id :: string
  gr_customer_id :: "string option"
  error :: "string option"
  raw_response :: "py_dict option"

subsection \<open>The processor's client library\<close>

text \<open>What the module reads of a result object of the client library: \<^verbatim>\<open>is_success\<close>,
  \<^verbatim>\<open>errors.deep_errors\<close> (read only when \<^verbatim>\<open>is_success\<close> is false) and
  \<^verbatim>\<open>transaction\<close>, which may be \<^verbatim>\<open>None\<close>. A transaction need not have an
  attribute \<^verbatim>\<open>id\<close>.\<close>

record deep_error =
  error_code :: string
  error_message :: string

record sdk_transaction =
  tx_id :: "string option"
  currency_iso_code :: string
  tx_amount :: decimal
  credit_card :: "(string \<times> string) list"
  customer_details_id :: "string option"

record pagseguro_result =
  result_is_success :: bool
  deep_errors :: "deep_error list"
  transaction :: "sdk_transaction option"

datatype environment = Sandbox | Production

record gateway =
  gw_environment :: environment
  gw_merchant_id :: "string option"
  gw_public_key :: "string option"
  gw_private_key :: "string option"

text \<open>The payload of \<^verbatim>\<open>gateway.transaction.sale\<close>, a nested dict.\<close>

datatype payload =
    PStr string
  | PBool bool
  | PInt int
  | PNone
  | PDict "(string \<times> payload) list"

datatype sdk_request =
    Sale gateway "(string \<times> payload) list"
  | Submit_for_settlement gateway string string
  | Void_transaction gateway string
  | Refund_transaction gateway string string

text \<open>A call of the client library returns a result object, raises
  \<^verbatim>\<open>pagseguro_sdk.exceptions.NotFoundError\<close>, the one exception of the library that
  the module handles, or raises some other exception, given by the name of its class.\<close>

datatype sdk_outcome =
    Raised_NotFoundError
  | Raised_other string
  | Returned pagseguro_result

text \<open>The history of a run: which transaction operations were entered and which
  requests were sent to the processor, in order. The program keeps no such list; the
  model threads it through every operation so that "invokes" and "calls the processor"
  can be stated.\<close>

datatype operation = Op_authorize | Op_capture | Op_void | Op_refund

datatype event = Invoked operation | Sent sdk_request

text \<open>The exceptions that occur in the module: the two it raises itself, the client
  library's \<^verbatim>\<open>NotFoundError\<close>, which it catches, and any other exception of the
  client library, which it does not catch.\<close>

datatype exn =
    ImproperlyConfigured string
  | PagSeguroException string
  | NotFoundError
  | OtherError string

text \<open>What the module takes from outside. The processor answers a request given the
  history so far.\<close>

record externals =
  DEFAULT_ERROR_MESSAGE :: string
  pgettext_lazy :: "string \<Rightarrow> string \<Rightarrow> string"
  str_decimal :: "decimal \<Rightarrow> string"
  ChargeStatus_CHOICES :: "(string \<times> string) list"
  ChargeStatus_NOT_CHARGED :: string
  ChargeStatus_FULLY_REFUNDED :: string
  processor :: "event list \<Rightarrow> sdk_request \<Rightarrow> sdk_outcome"

type_synonym 'a outcome = "(exn + 'a) \<times> event list"

subsection \<open>Error classification\<close>

definition ERROR_CODES_WHITELIST :: "string \<rightharpoonup> string" where
  "ERROR_CODES_WHITELIST =
     [''91506'' \<mapsto>
        CHR 0x0A # ''        Cannot refund transaction unless it is settled.'' @
        CHR 0x0A # ''        Please try again later. Settlement time might vary depending'' @
        CHR 0x0A # ''        on the issuers bank.'']"

text \<open>The \<^verbatim>\<open>for\<close> loop of \<^verbatim>\<open>get_error_for_client\<close>, over a whitelist \<open>wl\<close>:
  \<^verbatim>\<open>wl[code] or error["message"]\<close> is the message when the override is empty.\<close>

fun scan_errors :: "(string \<rightharpoonup> string) \<Rightarrow> string \<Rightarrow> error_entry list \<Rightarrow> string" where
  "scan_errors wl default_msg [] = default_msg"
| "scan_errors wl default_msg (e # es) =
     (case wl (code e) of
        Some override \<Rightarrow> (if override \<noteq> [] then override else message e)
      | None \<Rightarrow> scan_errors wl default_msg es)"

definition default_msg :: "externals \<Rightarrow> string" where
  "default_msg ext =
     pgettext_lazy ext ''payment error''
       ''Unable to process transaction. Please try again in a moment''"

definition get_error_for_client_over ::
  "(string \<rightharpoonup> string) \<Rightarrow> externals \<Rightarrow> error_entry list \<Rightarrow> string" where
  "get_error_for_client_over wl ext errors =
     (if errors = [] then [] else scan_errors wl (default_msg ext) errors)"

definition get_error_for_client :: "externals \<Rightarrow> error_entry list \<Rightarrow> string" where
  "get_error_for_client = get_error_for_client_over ERROR_CODES_WHITELIST"

text \<open>The classifier as the specification words it: empty list, first whitelisted entry,
  generic message.\<close>

definition classify_reference ::
  "(string \<rightharpoonup> string) \<Rightarrow> string \<Rightarrow> error_entry list \<Rightarrow> string" where
  "classify_reference wl generic errors =
     (if errors = [] then []
      else case List.find (\<lambda>e. wl (code e) \<noteq> None) errors of
             Some e \<Rightarrow> (if the (wl (code e)) = [] then message e else the (wl (code e)))
           | None \<Rightarrow> generic)"

subsection \<open>Normalising a result of the processor\<close>

definition extract_gateway_response :: "pagseguro_result \<Rightarrow> py_dict" where
  "extract_gateway_response pagseguro_result =
     (let errors =
        (if \<not> result_is_success pagseguro_result
         then map (\<lambda>e. \<lparr>code = error_code e, message = error_message e\<rparr>)
                (deep_errors pagseguro_result)
         else [])
      in case transaction pagseguro_result of
           None \<Rightarrow> [''errors'' \<mapsto> Errors errors]
         | Some bt_transaction \<Rightarrow>
             [''transaction_id'' \<mapsto>
                Str (case tx_id bt_transaction of Some i \<Rightarrow> i | None \<Rightarrow> []),
              ''currency'' \<mapsto> Str (currency_iso_code bt_transaction),
              ''amount'' \<mapsto> Dec (tx_amount bt_transaction),
              ''credit_card'' \<mapsto> Card (credit_card bt_transaction),
              ''customer_id'' \<mapsto> OptStr (customer_details_id bt_transaction),
              ''errors'' \<mapsto> Errors errors])"

text \<open>\<^verbatim>\<open>d.get(k, default)\<close>.\<close>

definition dict_get :: "py_dict \<Rightarrow> string \<Rightarrow> py_value \<Rightarrow> py_value" where
  "dict_get d k dflt = (case d k of Some v \<Rightarrow> v | None \<Rightarrow> dflt)"

subsection \<open>Building the client\<close>

text \<open>Python's truth value of a credential: \<^verbatim>\<open>None\<close> and the empty string are false.\<close>

definition truthy :: "string option \<Rightarrow> bool" where
  "truthy s = (case s of None \<Rightarrow> False | Some v \<Rightarrow> v \<noteq> [])"

definition get_pagseguro_gateway :: "connection_params \<Rightarrow> exn + gateway" where
  "get_pagseguro_gateway cp =
     (if \<not> (truthy (merchant_id cp) \<and> truthy (private_key cp) \<and> truthy (public_key cp))
      then Inl (ImproperlyConfigured ''Incorrectly configured PagSeguro gateway.'')
      else Inr \<lparr>gw_environment = (if \<not> sandbox_mode cp then Production else Sandbox),
                gw_merchant_id = merchant_id cp,
                gw_public_key = public_key cp,
                gw_private_key = private_key cp\<rparr>)"

text \<open>One call of the client library: the request enters the history, and the library
  returns a result or raises.\<close>

definition send :: "externals \<Rightarrow> sdk_request \<Rightarrow> event list \<Rightarrow> pagseguro_result outcome" where
  "send ext req log =
     (case processor ext log req of
        Raised_NotFoundError \<Rightarrow> (Inl NotFoundError, log @ [Sent req])
      | Raised_other x \<Rightarrow> (Inl (OtherError x), log @ [Sent req])
      | Returned r \<Rightarrow> (Inr r, log @ [Sent req]))"

subsection \<open>Request payloads\<close>

definition get_billing_data :: "PaymentData \<Rightarrow> (string \<times> payload) list" where
  "get_billing_data payment_information =
     (case billing payment_information of
        None \<Rightarrow> []
      | Some billing_info \<Rightarrow>
          [(''first_name'', PStr (first_name billing_info)),
           (''last_name'', PStr (last_name billing_info)),
           (''company'', PStr (company_name billing_info)),
           (''postal_code'', PStr (postal_code billing_info)),
           (''street_address'', PStr (street_address_1 billing_info)),
           (''extended_address'', PStr (street_address_2 billing_info)),
           (''locality'', PStr (city billing_info)),
           (''region'', PStr (country_area billing_info)),
           (''country_code_alpha2'', PStr (country billing_info))])"

definition get_customer_data :: "PaymentData \<Rightarrow> (string \<times> payload) list" where
  "get_customer_data payment_information =
     [(''order_id'', (case order_id payment_information of None \<Rightarrow> PNone | Some n \<Rightarrow> PInt n)),
      (''billing'', PDict (get_billing_data payment_information)),
      (''risk_data'',
         PDict [(''customer_ip'',
                 PStr (case customer_ip_address payment_information of
                         None \<Rightarrow> [] | Some ip \<Rightarrow> ip))]),
      (''customer'', PDict [(''email'', PStr (customer_email payment_information))])]"

definition transaction_for_new_customer ::
  "externals \<Rightarrow> PaymentData \<Rightarrow> GatewayConfig \<Rightarrow> event list \<Rightarrow> pagseguro_result outcome" where
  "transaction_for_new_customer ext payment_information config log =
     (case get_pagseguro_gateway (connection_params config) of
        Inl e \<Rightarrow> (Inl e, log)
      | Inr gateway \<Rightarrow>
          send ext
            (Sale gateway
               ([(''amount'', PStr (str_decimal ext (amount payment_information))),
                 (''payment_method_nonce'', PStr (token payment_information)),
                 (''options'',
                    PDict [(''submit_for_settlement'', PBool (auto_capture config)),
                           (''store_in_vault_on_success'',
                              PBool (reuse_source payment_information)),
                           (''three_d_secure'',
                              PDict [(''required'', PBool (require_3d_secure config))])])]
                @ get_customer_data payment_information))
            log)"

definition transaction_for_existing_customer ::
  "externals \<Rightarrow> PaymentData \<Rightarrow> GatewayConfig \<Rightarrow> event list \<Rightarrow> pagseguro_result outcome" where
  "transaction_for_existing_customer ext payment_information config log =
     (case get_pagseguro_gateway (connection_params config) of
        Inl e \<Rightarrow> (Inl e, log)
      | Inr gateway \<Rightarrow>
          send ext
            (Sale gateway
               ([(''amount'', PStr (str_decimal ext (amount payment_information))),
                 (''customer_id'',
                    (case customer_id payment_information of
                       None \<Rightarrow> PNone | Some c \<Rightarrow> PStr c)),
                 (''options'',
                    PDict [(''submit_for_settlement'', PBool (auto_capture config))])]
                @ get_customer_data payment_information))
            log)"

subsection \<open>The first definitions of authorize, capture and void\<close>

text \<open>
  The module defines \<^verbatim>\<open>authorize\<close>, \<^verbatim>\<open>capture\<close> and \<^verbatim>\<open>void\<close> twice. The first
  definitions (lines 136, 197 and 225) call the processor; the later ones (lines 358, 392
  and 376) replace them in the module's namespace, so that every caller, and
  \<^verbatim>\<open>process_payment\<close> itself, reaches the later ones. The first definitions are kept
  here under the suffix \<open>_shadowed\<close>.
\<close>

text \<open>The common tail of the three, which the source writes out three times: normalise,
  classify, assemble. \<open>with_customer\<close> says whether \<^verbatim>\<open>customer_id\<close> is passed to the
  response (only \<^verbatim>\<open>authorize\<close> does). \<^verbatim>\<open>gateway_response["errors"]\<close> reads a key
  that \<^verbatim>\<open>extract_gateway_response\<close> always sets, and the values read with
  \<^verbatim>\<open>get\<close> have the types the normaliser stored (lemma \<open>extract_gateway_response_typed\<close>).
  The error is a string, empty when there are no errors, never \<^verbatim>\<open>None\<close>.\<close>

definition assemble ::
  "externals \<Rightarrow> bool \<Rightarrow> TransactionKind \<Rightarrow> PaymentData \<Rightarrow> pagseguro_result \<Rightarrow> GatewayResponse" where
  "assemble ext with_customer k payment_information result =
     (let gateway_response = extract_gateway_response result;
          err = get_error_for_client ext (the_Errors (the (gateway_response ''errors'')))
      in \<lparr>is_success = result_is_success result,
          action_required = False,
          kind = k,
          gr_amount =
            the_Dec (dict_get gateway_response ''amount'' (Dec (amount payment_information))),
          gr_currency =
            the_Str (dict_get gateway_response ''currency'' (Str (currency payment_information))),
          transaction_id =
            the_Str (dict_get gateway_response ''transaction_id''
                       (Str (token payment_information))),
          gr_customer_id =
            (if with_customer
             then the_OptStr (dict_get gateway_response ''customer_id'' (OptStr None))
             else None),
          error = Some err,
          raw_response = Some gateway_response\<rparr>)"

text \<open>\<^verbatim>\<open>except NotFoundError: raise PagSeguroException(DEFAULT_ERROR_MESSAGE)\<close>; any other
  exception passes.\<close>

definition on_not_found :: "externals \<Rightarrow> exn \<Rightarrow> exn" where
  "on_not_found ext e =
     (case e of NotFoundError \<Rightarrow> PagSeguroException (DEFAULT_ERROR_MESSAGE ext) | _ \<Rightarrow> e)"

definition authorize_shadowed ::
  "externals \<Rightarrow> PaymentData \<Rightarrow> GatewayConfig \<Rightarrow> event list \<Rightarrow> GatewayResponse outcome" where
  "authorize_shadowed ext payment_information config log0 =
     (let log = log0 @ [Invoked Op_authorize] in
      case (if \<not> truthy (customer_id payment_information)
            then transaction_for_new_customer ext payment_information config log
            else transaction_for_existing_customer ext payment_information config log) of
        (Inl e, log') \<Rightarrow> (Inl (on_not_found ext e), log')
      | (Inr result, log') \<Rightarrow>
          (Inr (assemble ext True (if auto_capture config then CAPTURE else AUTH)
                  payment_information result),
           log'))"

definition capture_shadowed ::
  "externals \<Rightarrow> PaymentData \<Rightarrow> GatewayConfig \<Rightarrow> event list \<Rightarrow> GatewayResponse outcome" where
  "capture_shadowed ext payment_information config log0 =
     (let log = log0 @ [Invoked Op_capture] in
      case get_pagseguro_gateway (connection_params config) of
        Inl e \<Rightarrow> (Inl e, log)
      | Inr gateway \<Rightarrow>
          (case send ext
                  (Submit_for_settlement gateway (token payment_information)
                     (str_decimal ext (amount payment_information)))
                  log of
             (Inl e, log') \<Rightarrow> (Inl (on_not_found ext e), log')
           | (Inr result, log') \<Rightarrow>
               (Inr (assemble ext False CAPTURE payment_information result), log')))"

definition void_shadowed ::
  "externals \<Rightarrow> PaymentData \<Rightarrow> GatewayConfig \<Rightarrow> event list \<Rightarrow> GatewayResponse outcome" where
  "void_shadowed ext payment_information config log0 =
     (let log = log0 @ [Invoked Op_void] in
      case get_pagseguro_gateway (connection_params config) of
        Inl e \<Rightarrow> (Inl e, log)
      | Inr gateway \<Rightarrow>
          (case send ext (Void_transaction gateway (token payment_information)) log of
             (Inl e, log') \<Rightarrow> (Inl (on_not_found ext e), log')
           | (Inr result, log') \<Rightarrow>
               (Inr (assemble ext False VOID payment_information result), log')))"

subsection \<open>The operations the module exposes\<close>

definition dummy_success :: bool where
  "dummy_success = True"

text \<open>The response class's fields \<^verbatim>\<open>customer_id\<close> and \<^verbatim>\<open>raw_response\<close> are not
  passed by the definitions below and keep their default, \<^verbatim>\<open>None\<close>.\<close>

definition authorize :: "PaymentData \<Rightarrow> GatewayConfig \<Rightarrow> event list \<Rightarrow> GatewayResponse outcome" where
  "authorize payment_information config log =
     (let success = dummy_success;
          err = None;
          err = (if \<not> success then Some ''Unable to authorize transaction'' else err)
      in (Inr \<lparr>is_success = success,
               action_required = False,
               kind = AUTH,
               gr_amount = amount payment_information,
               gr_currency = currency payment_information,
               transaction_id = token payment_information,
               gr_customer_id = None,
               error = err,
               raw_response = None\<rparr>,
          log @ [Invoked Op_authorize]))"

definition void :: "PaymentData \<Rightarrow> GatewayConfig \<Rightarrow> event list \<Rightarrow> GatewayResponse outcome" where
  "void payment_information config log =
     (let err = None;
          success = dummy_success;
          err = (if \<not> success then Some ''Unable to void the transaction.'' else err)
      in (Inr \<lparr>is_success = success,
               action_required = False,
               kind = VOID,
               gr_amount = amount payment_information,
               gr_currency = currency payment_information,
               transaction_id = token payment_information,
               gr_customer_id = None,
               error = err,
               raw_response = None\<rparr>,
          log @ [Invoked Op_void]))"

definition capture :: "PaymentData \<Rightarrow> GatewayConfig \<Rightarrow> event list \<Rightarrow> GatewayResponse outcome" where
  "capture payment_information config log =
     (let err = None;
          success = dummy_success;
          err = (if \<not> success then Some ''Unable to process capture'' else err)
      in (Inr \<lparr>is_success = success,
               action_required = False,
               kind = CAPTURE,
               gr_amount = amount payment_information,
               gr_currency = currency payment_information,
               transaction_id = token payment_information,
               gr_customer_id = None,
               error = err,
               raw_response = None\<rparr>,
          log @ [Invoked Op_capture]))"

text \<open>\<^verbatim>\<open>refund\<close> is defined once. It builds the client and sends the refund request; the
  result object is then left unread, since the function returns before the lines that
  normalise and classify it (lines 278 to 292, which no run reaches and the model omits).\<close>

definition refund ::
  "externals \<Rightarrow> PaymentData \<Rightarrow> GatewayConfig \<Rightarrow> event list \<Rightarrow> GatewayResponse outcome" where
  "refund ext payment_information config log0 =
     (let log = log0 @ [Invoked Op_refund] in
      case get_pagseguro_gateway (connection_params config) of
        Inl e \<Rightarrow> (Inl e, log)
      | Inr gateway \<Rightarrow>
          (case send ext
                  (Refund_transaction gateway (token payment_information)
                     (str_decimal ext (amount payment_information)))
                  log of
             (Inl e, log') \<Rightarrow> (Inl (on_not_found ext e), log')
           | (Inr result, log') \<Rightarrow>
               (let err = None;
                    success = dummy_success;
                    err = (if \<not> success then Some ''Unable to process refund'' else err)
                in (Inr \<lparr>is_success = success,
                         action_required = False,
                         kind = REFUND,
                         gr_amount = amount payment_information,
                         gr_currency = currency payment_information,
                         transaction_id = token payment_information,
                         gr_customer_id = None,
                         error = err,
                         raw_response = None\<rparr>,
                    log'))))"

text \<open>\<^verbatim>\<open>token not in dict(ChargeStatus.CHOICES)\<close>: the keys of that dict are the first
  components of the pairs. An exception of a call ends the function, as it does in
  Python.\<close>

definition process_payment ::
  "externals \<Rightarrow> PaymentData \<Rightarrow> GatewayConfig \<Rightarrow> event list \<Rightarrow> GatewayResponse outcome" where
  "process_payment ext payment_information config log =
     (let tok = token payment_information in
      if tok \<notin> set (map fst (ChargeStatus_CHOICES ext))
      then capture payment_information config log
      else
        let charge_status = tok in
        case authorize payment_information config log of
          (Inl e, log1) \<Rightarrow> (Inl e, log1)
        | (Inr authorize_response, log1) \<Rightarrow>
            if charge_status = ChargeStatus_NOT_CHARGED ext
            then (Inr authorize_response, log1)
            else if \<not> auto_capture config
            then (Inr authorize_response, log1)
            else
              (case capture payment_information config log1 of
                 (Inl e, log2) \<Rightarrow> (Inl e, log2)
               | (Inr capture_response, log2) \<Rightarrow>
                   if charge_status = ChargeStatus_FULLY_REFUNDED ext
                   then refund ext payment_information config log2
                   else (Inr capture_response, log2)))"

subsection \<open>Reading the history\<close>

text \<open>The last event of a history is a request that the processor answered with
  \<^verbatim>\<open>NotFoundError\<close>.\<close>

definition reports_not_found :: "externals \<Rightarrow> event list \<Rightarrow> bool" where
  "reports_not_found ext log =
     (case rev log of
        Sent req # before \<Rightarrow> processor ext (rev before) req = Raised_NotFoundError
      | _ \<Rightarrow> False)"

text \<open>The last event of a history is a request at which the client library raised the
  exception \<open>x\<close>, other than \<^verbatim>\<open>NotFoundError\<close>.\<close>

definition reports_other :: "externals \<Rightarrow> event list \<Rightarrow> string \<Rightarrow> bool" where
  "reports_other ext log x =
     (case rev log of
        Sent req # before \<Rightarrow> processor ext (rev before) req = Raised_other x
      | _ \<Rightarrow> False)"

definition credentials_present :: "GatewayConfig \<Rightarrow> bool" where
  "credentials_present config =
     (truthy (merchant_id (connection_params config)) \<and>
      truthy (private_key (connection_params config)) \<and>
      truthy (public_key (connection_params config)))"

text \<open>The response of the later definitions and of \<^verbatim>\<open>refund\<close>: success, no error, the
  payment's own amount, currency and token.\<close>

definition dummy_response :: "TransactionKind \<Rightarrow> PaymentData \<Rightarrow> GatewayResponse" where
  "dummy_response k payment_information =
     \<lparr>is_success = True,
      action_required = False,
      kind = k,
      gr_amount = amount payment_information,
      gr_currency = currency payment_information,
      transaction_id = token payment_information,
      gr_customer_id = None,
      error = None,
      raw_response = None\<rparr>"

subsection \<open>Sample inputs\<close>

definition sample_payment :: PaymentData where
  "sample_payment =
     \<lparr>amount = Decimal 1000 (- 2),
      currency = ''USD'',
      billing = None,
      order_id = Some 7,
      customer_ip_address = None,
      customer_email = ''customer@example.com'',
      token = ''tok_abc123'',
      customer_id = None,
      reuse_source = False\<rparr>"

definition sample_connection :: connection_params where
  "sample_connection =
     \<lparr>sandbox_mode = True,
      merchant_id = Some ''merchant'',
      public_key = Some ''public'',
      private_key = Some ''private''\<rparr>"

definition sample_config :: GatewayConfig where
  "sample_config =
     \<lparr>auto_capture = True,
      store_customer = False,
      require_3d_secure = False,
      connection_params = sample_connection\<rparr>"

text \<open>A configuration without a merchant id.\<close>

definition unconfigured :: GatewayConfig where
  "unconfigured = sample_config\<lparr>connection_params := sample_connection\<lparr>merchant_id := None\<rparr>\<rparr>"

text \<open>A result of the processor that failed before a transaction existed, and one whose
  transaction has no id.\<close>

definition rejected_result :: pagseguro_result where
  "rejected_result =
     \<lparr>result_is_success = False,
      deep_errors = [\<lparr>error_code = ''91506'', error_message = ''raw msg''\<rparr>,
                     \<lparr>error_code = ''81724'', error_message = ''duplicate card''\<rparr>],
      transaction = None\<rparr>"

definition transaction_without_id :: sdk_transaction where
  "transaction_without_id =
     \<lparr>tx_id = None,
      currency_iso_code = ''USD'',
      tx_amount = Decimal 1000 (- 2),
      credit_card = [],
      customer_details_id = None\<rparr>"

definition settled_result :: pagseguro_result where
  "settled_result =
     \<lparr>result_is_success = True,
      deep_errors = [],
      transaction = Some transaction_without_id\<rparr>"

text \<open>The charge statuses of a shop, an identity translation, and a processor that
  rejects every request with the result above.\<close>

definition sample_externals :: externals where
  "sample_externals =
     \<lparr>DEFAULT_ERROR_MESSAGE = ''Unable to process the transaction.'',
      pgettext_lazy = (\<lambda>ctxt msg. msg),
      str_decimal = (\<lambda>d. ''10.00''),
      ChargeStatus_CHOICES =
        [(''not-charged'', ''Not charged''),
         (''fully-charged'', ''Fully charged''),
         (''fully-refunded'', ''Fully refunded'')],
      ChargeStatus_NOT_CHARGED = ''not-charged'',
      ChargeStatus_FULLY_REFUNDED = ''fully-refunded'',
      processor = (\<lambda>log req. Returned rejected_result)\<rparr>"

text \<open>The same, with a processor that finds no transaction.\<close>

definition not_found_externals :: externals where
  "not_found_externals = sample_externals\<lparr>processor := (\<lambda>log req. Raised_NotFoundError)\<rparr>"

text \<open>The same, with a client library that cannot reach the processor.\<close>

definition unreachable_externals :: externals where
  "unreachable_externals =
     sample_externals\<lparr>processor := (\<lambda>log req. Raised_other ''ConnectionError'')\<rparr>"

section \<open>Properties\<close>

subsection \<open>The error classifier\<close>

lemma scan_errors_find:
  "scan_errors wl d es =
     (case List.find (\<lambda>e. wl (code e) \<noteq> None) es of
        Some e \<Rightarrow> (if the (wl (code e)) = [] then message e else the (wl (code e)))
      | None \<Rightarrow> d)"
  by (induction es) (auto split: option.splits)

text \<open>
  Claim C6. \<^verbatim>\<open>get_error_for_client\<close> computes the reference classifier: the empty string
  for the empty list; for the first entry whose code is whitelisted, the override, or the
  entry's own message when the override is empty; the generic localized message when the
  list is not empty and no code is whitelisted. This holds over any whitelist, and so for
  the one the module ships.
\<close>

theorem get_error_for_client_reference:
  "get_error_for_client_over wl ext errors = classify_reference wl (default_msg ext) errors \<and>
   get_error_for_client ext errors =
     classify_reference ERROR_CODES_WHITELIST (default_msg ext) errors"
  by (simp add: get_error_for_client_def get_error_for_client_over_def classify_reference_def
      scan_errors_find)

theorem get_error_for_client_reference_witness:
  "get_error_for_client sample_externals
     [\<lparr>code = ''81724'', message = ''duplicate card''\<rparr>,
      \<lparr>code = ''91506'', message = ''raw msg''\<rparr>] =
   the (ERROR_CODES_WHITELIST ''91506'') \<and>
   get_error_for_client_over [''2001'' \<mapsto> []] sample_externals
     [\<lparr>code = ''2001'', message = ''Insufficient funds''\<rparr>] = ''Insufficient funds''"
  using get_error_for_client_reference [of ERROR_CODES_WHITELIST sample_externals
      "[\<lparr>code = ''81724'', message = ''duplicate card''\<rparr>,
        \<lparr>code = ''91506'', message = ''raw msg''\<rparr>]"]
    get_error_for_client_reference [of "[''2001'' \<mapsto> []]" sample_externals
      "[\<lparr>code = ''2001'', message = ''Insufficient funds''\<rparr>]"]
  by (simp add: classify_reference_def ERROR_CODES_WHITELIST_def)

lemma whitelist_lookup:
  "ERROR_CODES_WHITELIST c = Some ov \<Longrightarrow> ov \<noteq> []"
  by (auto simp: ERROR_CODES_WHITELIST_def split: if_splits)

lemma scan_errors_codes:
  "map code es1 = map code es2 \<Longrightarrow>
   scan_errors ERROR_CODES_WHITELIST d es1 = scan_errors ERROR_CODES_WHITELIST d es2"
proof (induction es1 arbitrary: es2)
  case Nil
  then show ?case by simp
next
  case (Cons e es1)
  then obtain e' es2' where es2: "es2 = e' # es2'" and c: "code e = code e'"
    and rest: "map code es1 = map code es2'"
    by (cases es2) auto
  show ?case
    using Cons.IH [OF rest] c
    by (auto simp: es2 split: option.splits dest: whitelist_lookup)
qed

lemma scan_errors_range:
  "scan_errors ERROR_CODES_WHITELIST d es \<in> {the (ERROR_CODES_WHITELIST ''91506''), d}"
  by (induction es) (auto simp: ERROR_CODES_WHITELIST_def split: option.splits if_splits)

text \<open>
  Claim C10. With the shipped whitelist, the result of \<^verbatim>\<open>get_error_for_client\<close> does not
  depend on the messages of the entries: two error lists with the same sequence of codes
  give the same string. The string is always the empty string, the override of code 91506
  or the generic message, so a message of the processor is never returned.
\<close>

theorem get_error_for_client_ignores_messages:
  "(map code es1 = map code es2 \<longrightarrow>
      get_error_for_client ext es1 = get_error_for_client ext es2) \<and>
   get_error_for_client ext es \<in>
     {[], the (ERROR_CODES_WHITELIST ''91506''), default_msg ext}"
proof -
  have "get_error_for_client ext es1 = get_error_for_client ext es2"
    if h: "map code es1 = map code es2"
  proof -
    from h have "(es1 = []) = (es2 = [])" by (cases es1; cases es2) auto
    with scan_errors_codes [OF h] show ?thesis
      by (simp add: get_error_for_client_def get_error_for_client_over_def)
  qed
  moreover have "get_error_for_client ext es \<in>
     {[], the (ERROR_CODES_WHITELIST ''91506''), default_msg ext}"
    using scan_errors_range [of "default_msg ext" es]
    by (auto simp: get_error_for_client_def get_error_for_client_over_def)
  ultimately show ?thesis by blast
qed

theorem get_error_for_client_ignores_messages_witness:
  "get_error_for_client sample_externals [\<lparr>code = ''91506'', message = ''raw msg''\<rparr>] =
   get_error_for_client sample_externals [\<lparr>code = ''91506'', message = ''another''\<rparr>] \<and>
   get_error_for_client sample_externals [\<lparr>code = ''91506'', message = ''raw msg''\<rparr>] \<noteq>
     ''raw msg''"
proof -
  have h: "map code [\<lparr>code = ''91506'', message = ''raw msg''\<rparr>] =
           map code [\<lparr>code = ''91506'', message = ''another''\<rparr>]" by simp
  have "get_error_for_client sample_externals [\<lparr>code = ''91506'', message = ''raw msg''\<rparr>] =
        get_error_for_client sample_externals [\<lparr>code = ''91506'', message = ''another''\<rparr>]"
    using get_error_for_client_ignores_messages
      [of "[\<lparr>code = ''91506'', message = ''raw msg''\<rparr>]"
          "[\<lparr>code = ''91506'', message = ''another''\<rparr>]" sample_externals "[]"] h
    by blast
  moreover have
    "get_error_for_client sample_externals [\<lparr>code = ''91506'', message = ''raw msg''\<rparr>] \<noteq>
       ''raw msg''"
    by (simp add: get_error_for_client_def get_error_for_client_over_def
        ERROR_CODES_WHITELIST_def)
  ultimately show ?thesis by blast
qed

subsection \<open>The normaliser\<close>

lemma extract_gateway_response_typed:
  "(\<exists>es. extract_gateway_response r ''errors'' = Some (Errors es)) \<and>
   (extract_gateway_response r ''amount'' = None \<or>
    (\<exists>a. extract_gateway_response r ''amount'' = Some (Dec a))) \<and>
   (extract_gateway_response r ''currency'' = None \<or>
    (\<exists>c. extract_gateway_response r ''currency'' = Some (Str c))) \<and>
   (extract_gateway_response r ''transaction_id'' = None \<or>
    (\<exists>i. extract_gateway_response r ''transaction_id'' = Some (Str i))) \<and>
   (extract_gateway_response r ''customer_id'' = None \<or>
    (\<exists>c. extract_gateway_response r ''customer_id'' = Some (OptStr c)))"
  by (simp add: extract_gateway_response_def Let_def split: option.splits)

text \<open>
  Claim C7. For a result that is not a success and has no transaction,
  \<^verbatim>\<open>extract_gateway_response\<close> returns the dict whose only key is \<^verbatim>\<open>errors\<close>, holding
  one code and message per deep error; none of \<^verbatim>\<open>transaction_id\<close>, \<^verbatim>\<open>currency\<close>,
  \<^verbatim>\<open>amount\<close>, \<^verbatim>\<open>customer_id\<close> is a key. When there is a transaction without an id,
  \<^verbatim>\<open>transaction_id\<close> is the empty string.
\<close>

theorem extract_gateway_response_shape:
  "(\<not> result_is_success r \<and> transaction r = None \<longrightarrow>
      extract_gateway_response r =
        [''errors'' \<mapsto>
           Errors (map (\<lambda>e. \<lparr>code = error_code e, message = error_message e\<rparr>)
                     (deep_errors r))] \<and>
      dom (extract_gateway_response r) = {''errors''}) \<and>
   (transaction r = Some t \<and> tx_id t = None \<longrightarrow>
      extract_gateway_response r ''transaction_id'' = Some (Str []))"
  by (simp add: extract_gateway_response_def)

theorem extract_gateway_response_shape_witness:
  "extract_gateway_response rejected_result =
     [''errors'' \<mapsto> Errors [\<lparr>code = ''91506'', message = ''raw msg''\<rparr>,
                              \<lparr>code = ''81724'', message = ''duplicate card''\<rparr>]] \<and>
   extract_gateway_response rejected_result ''transaction_id'' = None \<and>
   extract_gateway_response rejected_result ''amount'' = None \<and>
   extract_gateway_response settled_result ''transaction_id'' = Some (Str [])"
proof -
  have a: "\<not> result_is_success rejected_result \<and> transaction rejected_result = None"
    by (simp add: rejected_result_def)
  have b: "transaction settled_result = Some transaction_without_id \<and>
           tx_id transaction_without_id = None"
    by (simp add: settled_result_def transaction_without_id_def)
  from extract_gateway_response_shape [of rejected_result transaction_without_id] a
  have 1: "extract_gateway_response rejected_result =
        [''errors'' \<mapsto>
           Errors (map (\<lambda>e. \<lparr>code = error_code e, message = error_message e\<rparr>)
             (deep_errors rejected_result))]"
    by blast
  from extract_gateway_response_shape [of settled_result transaction_without_id] b
  have 2: "extract_gateway_response settled_result ''transaction_id'' = Some (Str [])"
    by blast
  show ?thesis
    unfolding 1 using 2 by (simp add: rejected_result_def)
qed

subsection \<open>The later definitions of authorize, capture and void\<close>

lemma authorize_eq:
  "authorize p c l = (Inr (dummy_response AUTH p), l @ [Invoked Op_authorize])"
  by (simp add: authorize_def dummy_response_def dummy_success_def)

lemma capture_eq:
  "capture p c l = (Inr (dummy_response CAPTURE p), l @ [Invoked Op_capture])"
  by (simp add: capture_def dummy_response_def dummy_success_def)

lemma void_eq:
  "void p c l = (Inr (dummy_response VOID p), l @ [Invoked Op_void])"
  by (simp add: void_def dummy_response_def dummy_success_def)

text \<open>
  Claim C9. The definitions of \<^verbatim>\<open>authorize\<close>, \<^verbatim>\<open>capture\<close> and \<^verbatim>\<open>void\<close> that the
  module exposes are the later ones. For every payment and configuration they send
  nothing to the processor (the history gains only the entry of the operation), their
  result does not depend on the configuration, and it is a success without error, of kind
  AUTH, CAPTURE and VOID respectively, with the amount, currency and token of the payment.
\<close>

theorem later_definitions_are_dummies:
  "authorize payment_information config log =
     (Inr \<lparr>is_success = True, action_required = False, kind = AUTH,
           gr_amount = amount payment_information,
           gr_currency = currency payment_information,
           transaction_id = token payment_information,
           gr_customer_id = None, error = None, raw_response = None\<rparr>,
      log @ [Invoked Op_authorize]) \<and>
   capture payment_information config log =
     (Inr \<lparr>is_success = True, action_required = False, kind = CAPTURE,
           gr_amount = amount payment_information,
           gr_currency = currency payment_information,
           transaction_id = token payment_information,
           gr_customer_id = None, error = None, raw_response = None\<rparr>,
      log @ [Invoked Op_capture]) \<and>
   void payment_information config log =
     (Inr \<lparr>is_success = True, action_required = False, kind = VOID,
           gr_amount = amount payment_information,
           gr_currency = currency payment_information,
           transaction_id = token payment_information,
           gr_customer_id = None, error = None, raw_response = None\<rparr>,
      log @ [Invoked Op_void])"
  by (simp add: authorize_def capture_def void_def dummy_success_def)

lemma kind_assemble:
  "kind (assemble ext b k p r) = k"
  by (simp add: assemble_def Let_def)

text \<open>
  Claim C1. The claim is that the exposed \<^verbatim>\<open>authorize\<close> answers with kind CAPTURE when
  \<^verbatim>\<open>auto_capture\<close> is set. On a configuration with \<^verbatim>\<open>auto_capture\<close> set, the exposed
  definition (line 358) answers with kind AUTH, while the first definition (line 136),
  which the later one replaces, answers with kind CAPTURE.
\<close>

theorem authorize_kind_with_auto_capture:
  "auto_capture sample_config \<and>
   fst (authorize sample_payment sample_config []) = Inr (dummy_response AUTH sample_payment) \<and>
   kind (dummy_response AUTH sample_payment) = AUTH \<and>
   fst (authorize_shadowed sample_externals sample_payment sample_config []) =
     Inr (assemble sample_externals True CAPTURE sample_payment rejected_result) \<and>
   kind (assemble sample_externals True CAPTURE sample_payment rejected_result) = CAPTURE"
  by (simp add: authorize_eq kind_assemble authorize_shadowed_def
      transaction_for_new_customer_def send_def get_pagseguro_gateway_def truthy_def
      sample_config_def sample_connection_def sample_payment_def sample_externals_def
      dummy_response_def)

subsection \<open>Refund\<close>

lemma get_pagseguro_gateway_present:
  "credentials_present config =
     (\<exists>gw. get_pagseguro_gateway (connection_params config) = Inr gw)"
  by (simp add: get_pagseguro_gateway_def credentials_present_def)

lemma refund_result:
  "fst (refund ext p c l) = Inr r \<Longrightarrow> r = dummy_response REFUND p"
  by (auto simp: refund_def send_def dummy_response_def dummy_success_def Let_def
      split: sum.splits sdk_outcome.splits)

text \<open>
  Claim C3, as stated, fails: with a configuration that lacks the merchant id,
  \<^verbatim>\<open>refund\<close> returns no response; building the client raises
  \<^verbatim>\<open>ImproperlyConfigured\<close>.
\<close>

theorem refund_unconfigured:
  "fst (refund sample_externals sample_payment unconfigured []) =
     Inl (ImproperlyConfigured ''Incorrectly configured PagSeguro gateway.'')"
  by (simp add: refund_def get_pagseguro_gateway_def truthy_def unconfigured_def
      sample_config_def sample_connection_def)

text \<open>
  Claim C3, amended. For every payment and every configuration whose merchant id, public
  key and private key are all non-empty, the client is built; and whenever the processor
  answers the refund request with a result, \<^verbatim>\<open>refund\<close> returns a response with
  \<^verbatim>\<open>is_success\<close> true, kind REFUND, no error, and the amount, currency and token of the
  payment, whatever that result is: the result is never normalised or classified.
\<close>

theorem refund_succeeds_whatever_the_result:
  "(credentials_present config \<longrightarrow>
      (\<exists>gw. get_pagseguro_gateway (connection_params config) = Inr gw)) \<and>
   (get_pagseguro_gateway (connection_params config) = Inr gw \<and>
    processor ext (log @ [Invoked Op_refund])
      (Refund_transaction gw (token payment_information)
         (str_decimal ext (amount payment_information))) = Returned result \<longrightarrow>
    refund ext payment_information config log =
      (Inr \<lparr>is_success = True, action_required = False, kind = REFUND,
            gr_amount = amount payment_information,
            gr_currency = currency payment_information,
            transaction_id = token payment_information,
            gr_customer_id = None, error = None, raw_response = None\<rparr>,
       log @ [Invoked Op_refund,
              Sent (Refund_transaction gw (token payment_information)
                      (str_decimal ext (amount payment_information)))]))"
  by (simp add: get_pagseguro_gateway_present refund_def send_def dummy_success_def)

theorem refund_succeeds_whatever_the_result_witness:
  "credentials_present sample_config \<and>
   processor sample_externals [Invoked Op_refund]
     (Refund_transaction
        \<lparr>gw_environment = Sandbox, gw_merchant_id = Some ''merchant'',
         gw_public_key = Some ''public'', gw_private_key = Some ''private''\<rparr>
        ''tok_abc123'' ''10.00'') = Returned rejected_result \<and>
   \<not> result_is_success rejected_result \<and>
   fst (refund sample_externals sample_payment sample_config []) =
     Inr \<lparr>is_success = True, action_required = False, kind = REFUND,
          gr_amount = Decimal 1000 (- 2), gr_currency = ''USD'',
          transaction_id = ''tok_abc123'',
          gr_customer_id = None, error = None, raw_response = None\<rparr>"
proof -
  let ?gw = "\<lparr>gw_environment = Sandbox, gw_merchant_id = Some ''merchant'',
         gw_public_key = Some ''public'', gw_private_key = Some ''private''\<rparr>"
  have c: "credentials_present sample_config"
    by (simp add: credentials_present_def sample_config_def sample_connection_def truthy_def)
  have g: "get_pagseguro_gateway (connection_params sample_config) = Inr ?gw"
    by (simp add: get_pagseguro_gateway_def sample_config_def sample_connection_def truthy_def)
  have p: "processor sample_externals ([] @ [Invoked Op_refund])
     (Refund_transaction ?gw (token sample_payment)
        (str_decimal sample_externals (amount sample_payment))) = Returned rejected_result"
    by (simp add: sample_externals_def)
  from refund_succeeds_whatever_the_result
    [of sample_config ?gw sample_externals "[]" sample_payment rejected_result] g p
  have "refund sample_externals sample_payment sample_config [] =
      (Inr \<lparr>is_success = True, action_required = False, kind = REFUND,
            gr_amount = amount sample_payment,
            gr_currency = currency sample_payment,
            transaction_id = token sample_payment,
            gr_customer_id = None, error = None, raw_response = None\<rparr>,
       [] @ [Invoked Op_refund,
              Sent (Refund_transaction ?gw (token sample_payment)
                      (str_decimal sample_externals (amount sample_payment)))])"
    by blast
  then show ?thesis
    using c by (simp add: sample_payment_def sample_externals_def rejected_result_def)
qed

subsection \<open>A transaction that the processor does not find\<close>

lemma send_not_found:
  "send ext req l = (x, l') \<Longrightarrow> reports_not_found ext l' \<Longrightarrow> x = Inl NotFoundError"
  by (auto simp: send_def reports_not_found_def split: sdk_outcome.splits)

lemma send_other:
  "send ext req l = (x, l') \<Longrightarrow> reports_other ext l' y \<Longrightarrow> x = Inl (OtherError y)"
  by (auto simp: send_def reports_other_def split: sdk_outcome.splits)

lemma reports_not_found_Invoked [simp]:
  "\<not> reports_not_found ext (l @ [Invoked operation])"
  by (simp add: reports_not_found_def)

lemma reports_other_Invoked [simp]:
  "\<not> reports_other ext (l @ [Invoked operation]) y"
  by (simp add: reports_other_def)

lemma on_not_found_NotFoundError [simp]:
  "on_not_found ext NotFoundError = PagSeguroException (DEFAULT_ERROR_MESSAGE ext)"
  by (simp add: on_not_found_def)

lemma on_not_found_OtherError [simp]:
  "on_not_found ext (OtherError y) = OtherError y"
  by (simp add: on_not_found_def)

lemma on_not_found_ImproperlyConfigured [simp]:
  "on_not_found ext (ImproperlyConfigured m) = ImproperlyConfigured m"
  by (simp add: on_not_found_def)

lemma get_pagseguro_gateway_absent:
  "\<not> credentials_present config \<Longrightarrow>
   get_pagseguro_gateway (connection_params config) =
     Inl (ImproperlyConfigured ''Incorrectly configured PagSeguro gateway.'')"
  by (simp add: get_pagseguro_gateway_def credentials_present_def)

lemma transaction_for_new_customer_not_found:
  "transaction_for_new_customer ext p c (l @ [Invoked Op_authorize]) = (x, l') \<Longrightarrow>
   reports_not_found ext l' \<Longrightarrow> x = Inl NotFoundError"
  by (auto simp: transaction_for_new_customer_def split: sum.splits dest: send_not_found)

lemma transaction_for_existing_customer_not_found:
  "transaction_for_existing_customer ext p c (l @ [Invoked Op_authorize]) = (x, l') \<Longrightarrow>
   reports_not_found ext l' \<Longrightarrow> x = Inl NotFoundError"
  by (auto simp: transaction_for_existing_customer_def split: sum.splits dest: send_not_found)

lemma transaction_for_new_customer_other:
  "transaction_for_new_customer ext p c (l @ [Invoked Op_authorize]) = (x, l') \<Longrightarrow>
   reports_other ext l' y \<Longrightarrow> x = Inl (OtherError y)"
  by (auto simp: transaction_for_new_customer_def split: sum.splits dest: send_other)

lemma transaction_for_existing_customer_other:
  "transaction_for_existing_customer ext p c (l @ [Invoked Op_authorize]) = (x, l') \<Longrightarrow>
   reports_other ext l' y \<Longrightarrow> x = Inl (OtherError y)"
  by (auto simp: transaction_for_existing_customer_def split: sum.splits dest: send_other)

lemma refund_not_found:
  "reports_not_found ext (snd (refund ext p c l)) \<Longrightarrow>
   fst (refund ext p c l) = Inl (PagSeguroException (DEFAULT_ERROR_MESSAGE ext))"
  by (auto simp: refund_def Let_def split: sum.splits prod.splits dest: send_not_found)

lemma capture_shadowed_not_found:
  "reports_not_found ext (snd (capture_shadowed ext p c l)) \<Longrightarrow>
   fst (capture_shadowed ext p c l) = Inl (PagSeguroException (DEFAULT_ERROR_MESSAGE ext))"
  by (auto simp: capture_shadowed_def Let_def split: sum.splits prod.splits dest: send_not_found)

lemma void_shadowed_not_found:
  "reports_not_found ext (snd (void_shadowed ext p c l)) \<Longrightarrow>
   fst (void_shadowed ext p c l) = Inl (PagSeguroException (DEFAULT_ERROR_MESSAGE ext))"
  by (auto simp: void_shadowed_def Let_def split: sum.splits prod.splits dest: send_not_found)

lemma authorize_shadowed_not_found:
  "reports_not_found ext (snd (authorize_shadowed ext p c l)) \<Longrightarrow>
   fst (authorize_shadowed ext p c l) = Inl (PagSeguroException (DEFAULT_ERROR_MESSAGE ext))"
  by (auto simp: authorize_shadowed_def Let_def split: sum.splits prod.splits if_splits
      dest: transaction_for_new_customer_not_found transaction_for_existing_customer_not_found)

lemma refund_other:
  "reports_other ext (snd (refund ext p c l)) y \<Longrightarrow>
   fst (refund ext p c l) = Inl (OtherError y)"
  by (auto simp: refund_def Let_def split: sum.splits prod.splits dest: send_other)

lemma capture_shadowed_other:
  "reports_other ext (snd (capture_shadowed ext p c l)) y \<Longrightarrow>
   fst (capture_shadowed ext p c l) = Inl (OtherError y)"
  by (auto simp: capture_shadowed_def Let_def split: sum.splits prod.splits dest: send_other)

lemma void_shadowed_other:
  "reports_other ext (snd (void_shadowed ext p c l)) y \<Longrightarrow>
   fst (void_shadowed ext p c l) = Inl (OtherError y)"
  by (auto simp: void_shadowed_def Let_def split: sum.splits prod.splits dest: send_other)

lemma authorize_shadowed_other:
  "reports_other ext (snd (authorize_shadowed ext p c l)) y \<Longrightarrow>
   fst (authorize_shadowed ext p c l) = Inl (OtherError y)"
  by (auto simp: authorize_shadowed_def Let_def split: sum.splits prod.splits if_splits
      dest: transaction_for_new_customer_other transaction_for_existing_customer_other)

lemma refund_absent:
  "\<not> credentials_present c \<Longrightarrow>
   fst (refund ext p c l) =
     Inl (ImproperlyConfigured ''Incorrectly configured PagSeguro gateway.'')"
  by (simp add: refund_def Let_def get_pagseguro_gateway_absent)

lemma capture_shadowed_absent:
  "\<not> credentials_present c \<Longrightarrow>
   fst (capture_shadowed ext p c l) =
     Inl (ImproperlyConfigured ''Incorrectly configured PagSeguro gateway.'')"
  by (simp add: capture_shadowed_def Let_def get_pagseguro_gateway_absent)

lemma void_shadowed_absent:
  "\<not> credentials_present c \<Longrightarrow>
   fst (void_shadowed ext p c l) =
     Inl (ImproperlyConfigured ''Incorrectly configured PagSeguro gateway.'')"
  by (simp add: void_shadowed_def Let_def get_pagseguro_gateway_absent)

lemma authorize_shadowed_absent:
  "\<not> credentials_present c \<Longrightarrow>
   fst (authorize_shadowed ext p c l) =
     Inl (ImproperlyConfigured ''Incorrectly configured PagSeguro gateway.'')"
  by (simp add: authorize_shadowed_def Let_def transaction_for_new_customer_def
      transaction_for_existing_customer_def get_pagseguro_gateway_absent)

text \<open>
  Claim C2, as stated, fails: when the processor answers the refund request with
  \<^verbatim>\<open>NotFoundError\<close>, \<^verbatim>\<open>refund\<close> returns no response with \<^verbatim>\<open>is_success\<close> false; it
  raises \<^verbatim>\<open>PagSeguroException\<close> with \<^verbatim>\<open>DEFAULT_ERROR_MESSAGE\<close>.
\<close>

theorem refund_not_found_raises:
  "processor not_found_externals [Invoked Op_refund]
     (Refund_transaction
        \<lparr>gw_environment = Sandbox, gw_merchant_id = Some ''merchant'',
         gw_public_key = Some ''public'', gw_private_key = Some ''private''\<rparr>
        ''tok_abc123'' ''10.00'') = Raised_NotFoundError \<and>
   refund not_found_externals sample_payment sample_config [] =
     (Inl (PagSeguroException ''Unable to process the transaction.''),
      [Invoked Op_refund,
       Sent (Refund_transaction
               \<lparr>gw_environment = Sandbox, gw_merchant_id = Some ''merchant'',
                gw_public_key = Some ''public'', gw_private_key = Some ''private''\<rparr>
               ''tok_abc123'' ''10.00'')])"
  by (simp add: refund_def send_def get_pagseguro_gateway_def truthy_def on_not_found_def
      not_found_externals_def sample_externals_def sample_config_def sample_connection_def
      sample_payment_def)

text \<open>
  Claim C2, amended. Every operation that calls the processor (\<^verbatim>\<open>refund\<close>, and the first
  definitions of \<^verbatim>\<open>authorize\<close>, \<^verbatim>\<open>capture\<close> and \<^verbatim>\<open>void\<close>) raises
  \<^verbatim>\<open>PagSeguroException\<close> with \<^verbatim>\<open>DEFAULT_ERROR_MESSAGE\<close> when the processor reports that
  the transaction was not found, and returns no response then. The configuration error is
  not the only failure that leaves these operations: with a credential missing they raise
  \<^verbatim>\<open>ImproperlyConfigured\<close>, and any other exception of the call to the processor leaves
  them as it is, since \<^verbatim>\<open>NotFoundError\<close> is the only exception they catch.
\<close>

theorem not_found_is_raised:
  "(reports_not_found ext (snd (refund ext payment_information config log)) \<longrightarrow>
      fst (refund ext payment_information config log) =
        Inl (PagSeguroException (DEFAULT_ERROR_MESSAGE ext))) \<and>
   (reports_not_found ext (snd (authorize_shadowed ext payment_information config log)) \<longrightarrow>
      fst (authorize_shadowed ext payment_information config log) =
        Inl (PagSeguroException (DEFAULT_ERROR_MESSAGE ext))) \<and>
   (reports_not_found ext (snd (capture_shadowed ext payment_information config log)) \<longrightarrow>
      fst (capture_shadowed ext payment_information config log) =
        Inl (PagSeguroException (DEFAULT_ERROR_MESSAGE ext))) \<and>
   (reports_not_found ext (snd (void_shadowed ext payment_information config log)) \<longrightarrow>
      fst (void_shadowed ext payment_information config log) =
        Inl (PagSeguroException (DEFAULT_ERROR_MESSAGE ext))) \<and>
   (\<not> credentials_present config \<longrightarrow>
      fst (refund ext payment_information config log) =
        Inl (ImproperlyConfigured ''Incorrectly configured PagSeguro gateway.'') \<and>
      fst (authorize_shadowed ext payment_information config log) =
        Inl (ImproperlyConfigured ''Incorrectly configured PagSeguro gateway.'') \<and>
      fst (capture_shadowed ext payment_information config log) =
        Inl (ImproperlyConfigured ''Incorrectly configured PagSeguro gateway.'') \<and>
      fst (void_shadowed ext payment_information config log) =
        Inl (ImproperlyConfigured ''Incorrectly configured PagSeguro gateway.'')) \<and>
   (reports_other ext (snd (refund ext payment_information config log)) x \<longrightarrow>
      fst (refund ext payment_information config log) = Inl (OtherError x)) \<and>
   (reports_other ext (snd (authorize_shadowed ext payment_information config log)) x \<longrightarrow>
      fst (authorize_shadowed ext payment_information config log) = Inl (OtherError x)) \<and>
   (reports_other ext (snd (capture_shadowed ext payment_information config log)) x \<longrightarrow>
      fst (capture_shadowed ext payment_information config log) = Inl (OtherError x)) \<and>
   (reports_other ext (snd (void_shadowed ext payment_information config log)) x \<longrightarrow>
      fst (void_shadowed ext payment_information config log) = Inl (OtherError x))"
proof (intro conjI impI)
  show "fst (refund ext payment_information config log) =
        Inl (PagSeguroException (DEFAULT_ERROR_MESSAGE ext))"
    if "reports_not_found ext (snd (refund ext payment_information config log))"
    using that by (rule refund_not_found)
  show "fst (authorize_shadowed ext payment_information config log) =
        Inl (PagSeguroException (DEFAULT_ERROR_MESSAGE ext))"
    if "reports_not_found ext (snd (authorize_shadowed ext payment_information config log))"
    using that by (rule authorize_shadowed_not_found)
  show "fst (capture_shadowed ext payment_information config log) =
        Inl (PagSeguroException (DEFAULT_ERROR_MESSAGE ext))"
    if "reports_not_found ext (snd (capture_shadowed ext payment_information config log))"
    using that by (rule capture_shadowed_not_found)
  show "fst (void_shadowed ext payment_information config log) =
        Inl (PagSeguroException (DEFAULT_ERROR_MESSAGE ext))"
    if "reports_not_found ext (snd (void_shadowed ext payment_information config log))"
    using that by (rule void_shadowed_not_found)
  show "fst (refund ext payment_information config log) =
        Inl (ImproperlyConfigured ''Incorrectly configured PagSeguro gateway.'')"
    if "\<not> credentials_present config"
    using that by (rule refund_absent)
  show "fst (authorize_shadowed ext payment_information config log) =
        Inl (ImproperlyConfigured ''Incorrectly configured PagSeguro gateway.'')"
    if "\<not> credentials_present config"
    using that by (rule authorize_shadowed_absent)
  show "fst (capture_shadowed ext payment_information config log) =
        Inl (ImproperlyConfigured ''Incorrectly configured PagSeguro gateway.'')"
    if "\<not> credentials_present config"
    using that by (rule capture_shadowed_absent)
  show "fst (void_shadowed ext payment_information config log) =
        Inl (ImproperlyConfigured ''Incorrectly configured PagSeguro gateway.'')"
    if "\<not> credentials_present config"
    using that by (rule void_shadowed_absent)
  show "fst (refund ext payment_information config log) = Inl (OtherError x)"
    if "reports_other ext (snd (refund ext payment_information config log)) x"
    using that by (rule refund_other)
  show "fst (authorize_shadowed ext payment_information config log) = Inl (OtherError x)"
    if "reports_other ext (snd (authorize_shadowed ext payment_information config log)) x"
    using that by (rule authorize_shadowed_other)
  show "fst (capture_shadowed ext payment_information config log) = Inl (OtherError x)"
    if "reports_other ext (snd (capture_shadowed ext payment_information config log)) x"
    using that by (rule capture_shadowed_other)
  show "fst (void_shadowed ext payment_information config log) = Inl (OtherError x)"
    if "reports_other ext (snd (void_shadowed ext payment_information config log)) x"
    using that by (rule void_shadowed_other)
qed

theorem not_found_is_raised_witness:
  "reports_not_found not_found_externals
     (snd (refund not_found_externals sample_payment sample_config [])) \<and>
   fst (refund not_found_externals sample_payment sample_config []) =
     Inl (PagSeguroException ''Unable to process the transaction.'') \<and>
   \<not> credentials_present unconfigured \<and>
   fst (refund sample_externals sample_payment unconfigured []) =
     Inl (ImproperlyConfigured ''Incorrectly configured PagSeguro gateway.'') \<and>
   reports_other unreachable_externals
     (snd (refund unreachable_externals sample_payment sample_config [])) ''ConnectionError'' \<and>
   fst (refund unreachable_externals sample_payment sample_config []) =
     Inl (OtherError ''ConnectionError'')"
proof -
  let ?req = "Refund_transaction
               \<lparr>gw_environment = Sandbox, gw_merchant_id = Some ''merchant'',
                gw_public_key = Some ''public'', gw_private_key = Some ''private''\<rparr>
               ''tok_abc123'' ''10.00''"
  have run: "snd (refund not_found_externals sample_payment sample_config []) =
     [Invoked Op_refund, Sent ?req]"
    by (simp add: refund_def send_def get_pagseguro_gateway_def truthy_def
        not_found_externals_def sample_externals_def sample_config_def sample_connection_def
        sample_payment_def)
  have h: "reports_not_found not_found_externals
     (snd (refund not_found_externals sample_payment sample_config []))"
    unfolding run by (simp add: reports_not_found_def not_found_externals_def)
  have run': "snd (refund unreachable_externals sample_payment sample_config []) =
     [Invoked Op_refund, Sent ?req]"
    by (simp add: refund_def send_def get_pagseguro_gateway_def truthy_def
        unreachable_externals_def sample_externals_def sample_config_def sample_connection_def
        sample_payment_def)
  have o: "reports_other unreachable_externals
     (snd (refund unreachable_externals sample_payment sample_config [])) ''ConnectionError''"
    unfolding run' by (simp add: reports_other_def unreachable_externals_def)
  have u: "\<not> credentials_present unconfigured"
    by (simp add: credentials_present_def unconfigured_def sample_config_def
        sample_connection_def truthy_def)
  have d: "DEFAULT_ERROR_MESSAGE not_found_externals = ''Unable to process the transaction.''"
    by (simp add: not_found_externals_def sample_externals_def)
  from not_found_is_raised [of not_found_externals sample_payment sample_config "[]"] h
  have 1: "fst (refund not_found_externals sample_payment sample_config []) =
        Inl (PagSeguroException (DEFAULT_ERROR_MESSAGE not_found_externals))"
    by blast
  from not_found_is_raised [of sample_externals sample_payment unconfigured "[]"] u
  have 2: "fst (refund sample_externals sample_payment unconfigured []) =
        Inl (ImproperlyConfigured ''Incorrectly configured PagSeguro gateway.'')"
    by blast
  from not_found_is_raised [of unreachable_externals sample_payment sample_config "[]"
      "''ConnectionError''"] o
  have 3: "fst (refund unreachable_externals sample_payment sample_config []) =
        Inl (OtherError ''ConnectionError'')"
    by blast
  from h u o 1 2 3 d show ?thesis by simp
qed

subsection \<open>The orchestrator\<close>

lemma refund_fully_refunded_sample:
  "refund sample_externals (sample_payment\<lparr>token := ''fully-refunded''\<rparr>) sample_config l =
     (Inr (dummy_response REFUND (sample_payment\<lparr>token := ''fully-refunded''\<rparr>)),
      l @ [Invoked Op_refund,
           Sent (Refund_transaction
                   \<lparr>gw_environment = Sandbox, gw_merchant_id = Some ''merchant'',
                    gw_public_key = Some ''public'', gw_private_key = Some ''private''\<rparr>
                   ''fully-refunded'' ''10.00'')])"
  by (simp add: refund_def send_def get_pagseguro_gateway_def truthy_def sample_externals_def
      sample_config_def sample_connection_def sample_payment_def dummy_response_def
      dummy_success_def)

lemma process_payment_result:
  "fst (process_payment ext p c l) = Inr r \<Longrightarrow>
   r = dummy_response AUTH p \<or> r = dummy_response CAPTURE p \<or> r = dummy_response REFUND p"
  by (auto simp: process_payment_def authorize_eq capture_eq Let_def
      dest: refund_result split: if_splits)

lemma dummy_response_invariant:
  "(error (dummy_response k p) \<noteq> None) = (\<not> is_success (dummy_response k p))"
  by (simp add: dummy_response_def)

text \<open>
  Claim C4. When the token of the payment is not a key of \<^verbatim>\<open>ChargeStatus.CHOICES\<close>,
  \<^verbatim>\<open>process_payment\<close> returns exactly what \<^verbatim>\<open>capture\<close> returns for that payment and
  configuration, and the only operation it enters is \<^verbatim>\<open>capture\<close>: neither
  \<^verbatim>\<open>authorize\<close> nor \<^verbatim>\<open>refund\<close> is invoked.
\<close>

theorem process_payment_real_token:
  "token payment_information \<notin> set (map fst (ChargeStatus_CHOICES ext)) \<Longrightarrow>
   process_payment ext payment_information config log = capture payment_information config log \<and>
   snd (process_payment ext payment_information config log) = log @ [Invoked Op_capture]"
  by (simp add: process_payment_def capture_eq)

theorem process_payment_real_token_witness:
  "token sample_payment \<notin> set (map fst (ChargeStatus_CHOICES sample_externals)) \<and>
   process_payment sample_externals sample_payment sample_config [] =
     capture sample_payment sample_config [] \<and>
   snd (process_payment sample_externals sample_payment sample_config []) = [Invoked Op_capture]"
proof -
  have h: "token sample_payment \<notin> set (map fst (ChargeStatus_CHOICES sample_externals))"
    by (simp add: sample_payment_def sample_externals_def)
  from process_payment_real_token [OF h, of sample_config "[]"] h show ?thesis
    by (simp add: capture_eq)
qed

text \<open>
  Claim C5, as stated, fails: with the token \<^verbatim>\<open>FULLY_REFUNDED\<close>, \<^verbatim>\<open>auto_capture\<close> set
  and a configuration that lacks the merchant id, \<^verbatim>\<open>process_payment\<close> returns no
  response of kind REFUND; the call of \<^verbatim>\<open>refund\<close> raises \<^verbatim>\<open>ImproperlyConfigured\<close>.
\<close>

theorem process_payment_fully_refunded_unconfigured:
  "token (sample_payment\<lparr>token := ''fully-refunded''\<rparr>) =
     ChargeStatus_FULLY_REFUNDED sample_externals \<and>
   auto_capture unconfigured \<and>
   process_payment sample_externals (sample_payment\<lparr>token := ''fully-refunded''\<rparr>)
     unconfigured [] =
     (Inl (ImproperlyConfigured ''Incorrectly configured PagSeguro gateway.''),
      [Invoked Op_authorize, Invoked Op_capture, Invoked Op_refund])"
  by (simp add: process_payment_def authorize_eq capture_eq refund_def
      get_pagseguro_gateway_def truthy_def unconfigured_def sample_config_def
      sample_connection_def sample_externals_def)

text \<open>
  Claim C5, amended. When the token of the payment is \<^verbatim>\<open>ChargeStatus.FULLY_REFUNDED\<close>
  and \<^verbatim>\<open>auto_capture\<close> is set, \<^verbatim>\<open>process_payment\<close> invokes \<^verbatim>\<open>authorize\<close>, then
  \<^verbatim>\<open>capture\<close>, and ends as \<^verbatim>\<open>refund\<close> does after them; the response of
  \<^verbatim>\<open>capture\<close> is dropped. When the merchant id, public key and private key of the
  configuration are all non-empty, the client is built; and when the processor then
  answers the refund request with a result, \<^verbatim>\<open>process_payment\<close> returns the response of
  \<^verbatim>\<open>refund\<close>, which has kind REFUND. Otherwise the exception of \<^verbatim>\<open>refund\<close> leaves
  \<^verbatim>\<open>process_payment\<close>. \<^verbatim>\<open>ChargeStatus\<close> is a parameter here: \<^verbatim>\<open>FULLY_REFUNDED\<close> is
  taken to be one of the keys of \<^verbatim>\<open>CHOICES\<close> and to differ from \<^verbatim>\<open>NOT_CHARGED\<close>.
\<close>

theorem process_payment_fully_refunded:
  assumes "token payment_information = ChargeStatus_FULLY_REFUNDED ext"
    and "auto_capture config"
    and "ChargeStatus_FULLY_REFUNDED ext \<in> set (map fst (ChargeStatus_CHOICES ext))"
    and "ChargeStatus_FULLY_REFUNDED ext \<noteq> ChargeStatus_NOT_CHARGED ext"
  shows "process_payment ext payment_information config log =
           refund ext payment_information config
             (log @ [Invoked Op_authorize, Invoked Op_capture]) \<and>
         (credentials_present config \<longrightarrow>
            (\<exists>gw. get_pagseguro_gateway (connection_params config) = Inr gw)) \<and>
         (get_pagseguro_gateway (connection_params config) = Inr gw \<and>
          processor ext (log @ [Invoked Op_authorize, Invoked Op_capture, Invoked Op_refund])
            (Refund_transaction gw (token payment_information)
               (str_decimal ext (amount payment_information))) = Returned result \<longrightarrow>
          process_payment ext payment_information config log =
            (Inr \<lparr>is_success = True, action_required = False, kind = REFUND,
                  gr_amount = amount payment_information,
                  gr_currency = currency payment_information,
                  transaction_id = token payment_information,
                  gr_customer_id = None, error = None, raw_response = None\<rparr>,
             log @ [Invoked Op_authorize, Invoked Op_capture, Invoked Op_refund,
                    Sent (Refund_transaction gw (token payment_information)
                            (str_decimal ext (amount payment_information)))])) \<and>
         (\<forall>r. fst (process_payment ext payment_information config log) = Inr r \<longrightarrow>
              kind r = REFUND)"
proof -
  have eq: "process_payment ext payment_information config log =
           refund ext payment_information config
             (log @ [Invoked Op_authorize, Invoked Op_capture])"
    using assms by (simp add: process_payment_def authorize_eq capture_eq)
  have built: "\<exists>gw. get_pagseguro_gateway (connection_params config) = Inr gw"
    if "credentials_present config"
    using that by (simp add: get_pagseguro_gateway_present)
  have returned: "process_payment ext payment_information config log =
            (Inr \<lparr>is_success = True, action_required = False, kind = REFUND,
                  gr_amount = amount payment_information,
                  gr_currency = currency payment_information,
                  transaction_id = token payment_information,
                  gr_customer_id = None, error = None, raw_response = None\<rparr>,
             log @ [Invoked Op_authorize, Invoked Op_capture, Invoked Op_refund,
                    Sent (Refund_transaction gw (token payment_information)
                            (str_decimal ext (amount payment_information)))])"
    if "get_pagseguro_gateway (connection_params config) = Inr gw"
      and "processor ext (log @ [Invoked Op_authorize, Invoked Op_capture, Invoked Op_refund])
            (Refund_transaction gw (token payment_information)
               (str_decimal ext (amount payment_information))) = Returned result"
    using that by (simp add: eq refund_def send_def dummy_success_def)
  have "kind r = REFUND"
    if "fst (process_payment ext payment_information config log) = Inr r" for r
    using that refund_result [of ext payment_information config
        "log @ [Invoked Op_authorize, Invoked Op_capture]" r]
    by (simp add: eq dummy_response_def)
  with eq built returned show ?thesis by blast
qed

theorem process_payment_fully_refunded_witness:
  "credentials_present sample_config \<and>
   processor sample_externals [Invoked Op_authorize, Invoked Op_capture, Invoked Op_refund]
     (Refund_transaction
        \<lparr>gw_environment = Sandbox, gw_merchant_id = Some ''merchant'',
         gw_public_key = Some ''public'', gw_private_key = Some ''private''\<rparr>
        ''fully-refunded'' ''10.00'') = Returned rejected_result \<and>
   process_payment sample_externals (sample_payment\<lparr>token := ''fully-refunded''\<rparr>)
     sample_config [] =
     (Inr \<lparr>is_success = True, action_required = False, kind = REFUND,
           gr_amount = Decimal 1000 (- 2), gr_currency = ''USD'',
           transaction_id = ''fully-refunded'',
           gr_customer_id = None, error = None, raw_response = None\<rparr>,
      [Invoked Op_authorize, Invoked Op_capture, Invoked Op_refund,
       Sent (Refund_transaction
               \<lparr>gw_environment = Sandbox, gw_merchant_id = Some ''merchant'',
                gw_public_key = Some ''public'', gw_private_key = Some ''private''\<rparr>
               ''fully-refunded'' ''10.00'')])"
proof -
  let ?p = "sample_payment\<lparr>token := ''fully-refunded''\<rparr>"
  let ?gw = "\<lparr>gw_environment = Sandbox, gw_merchant_id = Some ''merchant'',
         gw_public_key = Some ''public'', gw_private_key = Some ''private''\<rparr>"
  have a: "token ?p = ChargeStatus_FULLY_REFUNDED sample_externals"
    by (simp add: sample_externals_def)
  have b: "auto_capture sample_config" by (simp add: sample_config_def)
  have c: "ChargeStatus_FULLY_REFUNDED sample_externals \<in>
           set (map fst (ChargeStatus_CHOICES sample_externals))"
    by (simp add: sample_externals_def)
  have d: "ChargeStatus_FULLY_REFUNDED sample_externals \<noteq>
           ChargeStatus_NOT_CHARGED sample_externals"
    by (simp add: sample_externals_def)
  have cr: "credentials_present sample_config"
    by (simp add: credentials_present_def sample_config_def sample_connection_def truthy_def)
  have g: "get_pagseguro_gateway (connection_params sample_config) = Inr ?gw"
    by (simp add: get_pagseguro_gateway_def sample_config_def sample_connection_def truthy_def)
  have p: "processor sample_externals
             ([] @ [Invoked Op_authorize, Invoked Op_capture, Invoked Op_refund])
             (Refund_transaction ?gw (token ?p) (str_decimal sample_externals (amount ?p))) =
           Returned rejected_result"
    by (simp add: sample_externals_def)
  from process_payment_fully_refunded
    [OF a b c d, where gw = ?gw and log = "[]" and result = rejected_result] g p
  have "process_payment sample_externals ?p sample_config [] =
      (Inr \<lparr>is_success = True, action_required = False, kind = REFUND,
            gr_amount = amount ?p, gr_currency = currency ?p, transaction_id = token ?p,
            gr_customer_id = None, error = None, raw_response = None\<rparr>,
       [] @ [Invoked Op_authorize, Invoked Op_capture, Invoked Op_refund,
             Sent (Refund_transaction ?gw (token ?p)
                     (str_decimal sample_externals (amount ?p)))])"
    by blast
  then show ?thesis
    using cr by (simp add: sample_payment_def sample_externals_def)
qed

subsection \<open>Error and success of a response\<close>

text \<open>
  Claim C8. Every response that the exposed operations \<^verbatim>\<open>authorize\<close>, \<^verbatim>\<open>capture\<close>,
  \<^verbatim>\<open>void\<close>, \<^verbatim>\<open>refund\<close> and \<^verbatim>\<open>process_payment\<close> return has an error exactly when
  \<^verbatim>\<open>is_success\<close> is false. The response of \<^verbatim>\<open>refund\<close>, which the claim allows to be an
  exception, satisfies it too.
\<close>

theorem exposed_responses_error_iff_failure:
  "(fst (authorize payment_information config log) = Inr r \<longrightarrow>
      (error r \<noteq> None) = (\<not> is_success r)) \<and>
   (fst (capture payment_information config log) = Inr r \<longrightarrow>
      (error r \<noteq> None) = (\<not> is_success r)) \<and>
   (fst (void payment_information config log) = Inr r \<longrightarrow>
      (error r \<noteq> None) = (\<not> is_success r)) \<and>
   (fst (refund ext payment_information config log) = Inr r \<longrightarrow>
      (error r \<noteq> None) = (\<not> is_success r)) \<and>
   (fst (process_payment ext payment_information config log) = Inr r \<longrightarrow>
      (error r \<noteq> None) = (\<not> is_success r))"
  using refund_result [of ext payment_information config log r]
    process_payment_result [of ext payment_information config log r]
    dummy_response_invariant
  by (auto simp: authorize_eq capture_eq void_eq)

theorem exposed_responses_error_iff_failure_witness:
  "fst (refund sample_externals (sample_payment\<lparr>token := ''fully-refunded''\<rparr>) sample_config []) =
     Inr (dummy_response REFUND (sample_payment\<lparr>token := ''fully-refunded''\<rparr>)) \<and>
   (error (dummy_response REFUND (sample_payment\<lparr>token := ''fully-refunded''\<rparr>)) \<noteq> None) =
     (\<not> is_success (dummy_response REFUND (sample_payment\<lparr>token := ''fully-refunded''\<rparr>))) \<and>
   fst (void sample_payment sample_config []) = Inr (dummy_response VOID sample_payment) \<and>
   (error (dummy_response VOID sample_payment) \<noteq> None) =
     (\<not> is_success (dummy_response VOID sample_payment))"
proof -
  have a: "fst (refund sample_externals (sample_payment\<lparr>token := ''fully-refunded''\<rparr>)
             sample_config []) =
           Inr (dummy_response REFUND (sample_payment\<lparr>token := ''fully-refunded''\<rparr>))"
    by (simp add: refund_fully_refunded_sample)
  have b: "fst (void sample_payment sample_config []) = Inr (dummy_response VOID sample_payment)"
    by (simp add: void_eq)
  from exposed_responses_error_iff_failure
    [of "sample_payment\<lparr>token := ''fully-refunded''\<rparr>" sample_config "[]"
        "dummy_response REFUND (sample_payment\<lparr>token := ''fully-refunded''\<rparr>)"
        sample_externals] a
  have 1: "(error (dummy_response REFUND (sample_payment\<lparr>token := ''fully-refunded''\<rparr>)) \<noteq> None) =
     (\<not> is_success (dummy_response REFUND (sample_payment\<lparr>token := ''fully-refunded''\<rparr>)))"
    by blast
  from exposed_responses_error_iff_failure
    [of sample_payment sample_config "[]" "dummy_response VOID sample_payment" sample_externals] b
  have 2: "(error (dummy_response VOID sample_payment) \<noteq> None) =
     (\<not> is_success (dummy_response VOID sample_payment))"
    by blast
  from a b 1 2 show ?thesis by blast
qed

end
